theory Spec2Isabelle
  imports Main "HOL-Library.AList"
begin

section \<open>JavaScript values\<close>

text \<open>
  The values that flow through a pipeline and through the data-access layer are untyped at
  run time (the sources cast to \<open>any\<close> throughout), so one type holds them all:
  \<open>undefined\<close>, a string, any other primitive (opaque), an array, and an object as
  its list of properties in insertion order. A primitive stands for a value without
  named members of its own: reading a property of it gives \<open>undefined\<close>.
\<close>

datatype 'a jsvalue =
    Undefined
  | Str string
  | Value 'a
  | Array "'a jsvalue list"
  | Object "(string \<times> 'a jsvalue) list"

datatype error = TypeError | Error string | AWSError string

text \<open>\<open>o[k]\<close> for a property name \<open>k\<close>; reading a property of \<open>undefined\<close> throws.\<close>

fun property :: "'a jsvalue \<Rightarrow> string \<Rightarrow> error + 'a jsvalue" where
  "property Undefined k = Inl TypeError"
| "property (Object kvs) k = Inr (case map_of kvs k of None \<Rightarrow> Undefined | Some v \<Rightarrow> v)"
| "property v k = Inr Undefined"

text \<open>The decimal numeral of a number, as \<open>String(n)\<close> gives it.\<close>

function show_nat :: "nat \<Rightarrow> string" where
  "show_nat n =
     (if n < 10 then [''0123456789'' ! n]
      else show_nat (n div 10) @ [''0123456789'' ! (n mod 10)])"
  by pat_completeness auto
termination
  by (relation "measure (\<lambda>n. n)") auto

declare show_nat.simps [simp del]

text \<open>
  \<open>a[i]\<close> for an index \<open>i\<close>: an element of an array, a character of a string,
  the property named by the numeral of an object, \<open>undefined\<close> out of range.
\<close>

fun index :: "'a jsvalue \<Rightarrow> nat \<Rightarrow> error + 'a jsvalue" where
  "index Undefined i = Inl TypeError"
| "index (Array xs) i = Inr (if i < length xs then xs ! i else Undefined)"
| "index (Str s) i = Inr (if i < length s then Str [s ! i] else Undefined)"
| "index (Object kvs) i = property (Object kvs) (show_nat i)"
| "index v i = Inr Undefined"

text \<open>
  An object literal with computed keys, \<open>{[k1]: v1, [k2]: v2}\<close>: a later property
  with the name of an earlier one overwrites its value and keeps its place.
\<close>

definition object_literal :: "(string \<times> 'a jsvalue) list \<Rightarrow> 'a jsvalue" where
  "object_literal kvs = Object (foldl (\<lambda>ob (k, v). AList.update k v ob) [] kvs)"

section \<open>Dependency lists as heap objects\<close>

text \<open>
  \<open>Enumerable.run\<close> compares two dependency lists with \<open>===\<close>, the identity of
  the array objects. A dependency list is therefore a reference into a heap of arrays;
  \<open>[d].concat(ds)\<close> allocates a fresh array, and two references are the same object
  exactly when they are equal.
\<close>

type_synonym ref = nat

record 'd heap =
  cells :: "ref \<Rightarrow> 'd list"
  fresh :: ref

definition deref :: "'d heap \<Rightarrow> ref \<Rightarrow> 'd list" where
  "deref h r = cells h r"

definition alloc :: "'d heap \<Rightarrow> 'd list \<Rightarrow> ref \<times> 'd heap" where
  "alloc h xs = (fresh h, h\<lparr>cells := (cells h)(fresh h := xs), fresh := Suc (fresh h)\<rparr>)"

text \<open>A reference is allocated when it lies below the next fresh address.\<close>

definition allocated :: "'d heap \<Rightarrow> ref \<Rightarrow> bool" where
  "allocated h r = (r < fresh h)"

section \<open>The pipeline stage engine (Enumerable)\<close>

text \<open>
  An asynchronous iterator that is drained to its end is the list of the values it yields,
  in order. The resolved clients of a run are a list, or \<open>undefined\<close> (\<open>None\<close>); the
  client handed to a stage's transformation is \<open>deps[0]\<close>, or \<open>undefined\<close>.

  A stage holds its predecessor, its transformation \<open>f\<close> and the reference to its
  dependency list, as the constructor of the class does.

  Modelled from the spec: the first stage of a chain and the \<open>chain\<close> primitive are
  abstract in the class and implemented by subclasses that are not among the sources.
  \<open>Root\<close> is the stage at the bottom of the recursion, whose \<open>run\<close> yields the
  event-bound sequence (it receives the client list it is called with), and \<open>chain\<close>
  wraps its receiver as the predecessor of a new stage with the given transformation and
  dependency list.
\<close>

datatype ('e, 'a, 'c) Enumerable =
    Root "'e \<Rightarrow> 'c list option \<Rightarrow> 'a jsvalue list" ref
  | Enumerable "('e, 'a, 'c) Enumerable"
      "'a jsvalue list \<Rightarrow> 'c option \<Rightarrow> 'a jsvalue list" ref

fun dependencies :: "('e, 'a, 'c) Enumerable \<Rightarrow> ref" where
  "dependencies (Root src deps) = deps"
| "dependencies (Enumerable previous f deps) = deps"

record ('d, 'h) input =
  depends :: "'d option"
  handle :: 'h

definition chain ::
  "ref \<Rightarrow> ('a jsvalue list \<Rightarrow> 'c option \<Rightarrow> 'a jsvalue list) \<Rightarrow>
   ('e, 'a, 'c) Enumerable \<Rightarrow> ('e, 'a, 'c) Enumerable" where
  "chain deps hdl this = Enumerable this hdl deps"

text \<open>\<open>deps ? deps[0] : undefined\<close>\<close>

definition client0 :: "'c list option \<Rightarrow> 'c option" where
  "client0 deps = (case deps of None \<Rightarrow> None | Some cs \<Rightarrow> (case cs of [] \<Rightarrow> None | c # _ \<Rightarrow> Some c))"

text \<open>\<open>deps ? deps.slice(1) : []\<close>\<close>

definition tail_clients :: "'c list option \<Rightarrow> 'c list option" where
  "tail_clients deps = (case deps of None \<Rightarrow> Some [] | Some cs \<Rightarrow> Some (drop 1 cs))"

fun run :: "('e, 'a, 'c) Enumerable \<Rightarrow> 'e \<Rightarrow> 'c list option \<Rightarrow> 'a jsvalue list" where
  "run (Root src ds) event deps = src event deps"
| "run (Enumerable previous f ds) event deps =
     (if ds = dependencies previous
      then f (run previous event deps) (client0 deps)
      else f (run previous event (tail_clients deps)) (client0 deps))"

text \<open>
  The generator of \<open>flatMap\<close>: for each upstream value in turn, every value of the
  handler's result in turn.
\<close>

fun flatMap_handle ::
  "('a jsvalue \<Rightarrow> 'c option \<Rightarrow> 'a jsvalue list) \<Rightarrow>
   'a jsvalue list \<Rightarrow> 'c option \<Rightarrow> 'a jsvalue list" where
  "flatMap_handle hdl [] clients = []"
| "flatMap_handle hdl (v # values) clients = hdl v clients @ flatMap_handle hdl values clients"

text \<open>
  \<open>flatMap\<close> chains the generator under the receiver's own dependency list when no
  dependency is declared, and under the freshly allocated \<open>[input.depends].concat(this.dependencies)\<close>
  otherwise.
\<close>

definition flatMap ::
  "('d, 'a jsvalue \<Rightarrow> 'c option \<Rightarrow> 'a jsvalue list) input \<Rightarrow>
   ('e, 'a, 'c) Enumerable \<Rightarrow> 'd heap \<Rightarrow> ('e, 'a, 'c) Enumerable \<times> 'd heap" where
  "flatMap inp this h =
     (case depends inp of
        None \<Rightarrow> (chain (dependencies this) (flatMap_handle (handle inp)) this, h)
      | Some d \<Rightarrow>
          (let (r, h') = alloc h ([d] @ deref h (dependencies this))
           in (chain r (flatMap_handle (handle inp)) this, h')))"

definition map_Enumerable ::
  "('d, 'a jsvalue \<Rightarrow> 'c option \<Rightarrow> 'a jsvalue) input \<Rightarrow>
   ('e, 'a, 'c) Enumerable \<Rightarrow> 'd heap \<Rightarrow> ('e, 'a, 'c) Enumerable \<times> 'd heap" where
  "map_Enumerable inp this h =
     flatMap \<lparr>depends = depends inp, handle = (\<lambda>v c. [handle inp v c])\<rparr> this h"

text \<open>
  The generator of \<open>batched\<close>. \<open>size\<close> is a number or \<open>undefined\<close>; the test
  \<open>size && batch.length === size\<close> holds for a size that is neither \<open>undefined\<close>
  nor zero and equals the length of the batch. The loop variable \<open>batch\<close> is the
  accumulator; each completed batch is yielded as an array.
\<close>

fun batched_loop :: "int option \<Rightarrow> 'a jsvalue list \<Rightarrow> 'a jsvalue list \<Rightarrow> 'a jsvalue list" where
  "batched_loop sz batch [] = (if length batch > 0 then [Array batch] else [])"
| "batched_loop sz batch (v # it) =
     (let batch' = batch @ [v]
      in if (case sz of None \<Rightarrow> False | Some n \<Rightarrow> n \<noteq> 0 \<and> int (length batch') = n)
         then Array batch' # batched_loop sz [] it
         else batched_loop sz batch' it)"

definition batched_handle :: "int option \<Rightarrow> 'a jsvalue list \<Rightarrow> 'c option \<Rightarrow> 'a jsvalue list" where
  "batched_handle sz it clients = batched_loop sz [] it"

definition batched :: "int option \<Rightarrow> ('e, 'a, 'c) Enumerable \<Rightarrow> ('e, 'a, 'c) Enumerable" where
  "batched sz this = chain (dependencies this) (batched_handle sz) this"


section \<open>The key-value client (DynamoDBClient)\<close>

subsection \<open>Collaborators\<close>

text \<open>
  The Mapper is an external collaborator: \<open>write\<close> (here \<open>write_m\<close>) encodes a value into the store's
  attribute format and \<open>read\<close> (\<open>read_m\<close>) decodes it. The class type a client is built for is
  passed as what the constructor reads of it: the Mapper of each member
  (\<open>Mapper.of(shape.Members[k].Type)\<close>), the Mapper of the whole record
  (\<open>Mapper.of(type)\<close>), and the field accessors of \<open>DSL.of(type)\<close>, one per member.
\<close>

record 'a Mapper =
  write_m :: "'a jsvalue \<Rightarrow> 'a jsvalue"
  read_m :: "'a jsvalue \<Rightarrow> 'a jsvalue"

record 'a ClassType =
  Members :: "(string \<times> 'a Mapper) list"
  Mapper_of :: "'a Mapper"

text \<open>
  The store's client (\<open>AWS.DynamoDB\<close>): every operation takes the request object and
  answers with an output or rejects with an error; the store's state \<open>'s\<close> is threaded
  through, so that a call the code does not make leaves it untouched. Of an output the
  client reads the optional sections below; a section the response does not carry is
  \<open>None\<close>, and the per-table sections map a table name to a list. The members of a
  response that the client does not read are kept as they come.
\<close>

record 'a AWS_Output =
  Items :: "'a jsvalue list option"
  Responses :: "(string \<times> 'a jsvalue list) list option"
  UnprocessedItems :: "(string \<times> 'a jsvalue list) list option"
  LastEvaluatedKey :: "'a jsvalue option"
  OtherMembers :: "(string \<times> 'a jsvalue) list"

text \<open>
  \<open>{...result}\<close>: the own properties of a response, the sections it carries and then
  its other members (\<open>Count\<close>, \<open>ScannedCount\<close> and the like).
\<close>

definition tables_object :: "(string \<times> 'a jsvalue list) list \<Rightarrow> 'a jsvalue" where
  "tables_object ts = Object (map (\<lambda>(t, xs). (t, Array xs)) ts)"

definition spread :: "'a AWS_Output \<Rightarrow> (string \<times> 'a jsvalue) list" where
  "spread out =
     (case Items out of None \<Rightarrow> [] | Some xs \<Rightarrow> [(''Items'', Array xs)]) @
     (case Responses out of None \<Rightarrow> [] | Some ts \<Rightarrow> [(''Responses'', tables_object ts)]) @
     (case UnprocessedItems out of
        None \<Rightarrow> []
      | Some ts \<Rightarrow> [(''UnprocessedItems'', tables_object ts)]) @
     (case LastEvaluatedKey out of None \<Rightarrow> [] | Some k \<Rightarrow> [(''LastEvaluatedKey'', k)]) @
     OtherMembers out"

record ('a, 's) AWS_DynamoDB =
  batchGetItem :: "'a jsvalue \<Rightarrow> 's \<Rightarrow> (error + 'a AWS_Output) \<times> 's"
  batchWriteItem :: "'a jsvalue \<Rightarrow> 's \<Rightarrow> (error + 'a AWS_Output) \<times> 's"
  aws_scan :: "'a jsvalue \<Rightarrow> 's \<Rightarrow> (error + 'a AWS_Output) \<times> 's"
  aws_query :: "'a jsvalue \<Rightarrow> 's \<Rightarrow> (error + 'a AWS_Output) \<times> 's"

subsection \<open>Expressions\<close>

text \<open>
  Modelled from the spec: the condition tree, the placeholder namespace and the expression
  writer (\<open>DSL\<close>, \<open>Writer.Namespace\<close> and \<open>Writer\<close> are imported by the client
  and are not among the sources). A condition is a comparison of a path with a value, a
  boolean combination or a function call. The namespace is the counter state that
  generates the name tokens \<open>#n0, #n1, ...\<close> and the value tokens \<open>:v0, :v1, ...\<close>.
  A writer collects the expression string, the map from name placeholders to field names
  and the map from value placeholders to wire values; it takes one name placeholder for
  each distinct path it writes and one value placeholder for each distinct literal, both
  from the namespace, and wraps the operands of a boolean combinator in parentheses.
\<close>

datatype 'a Bool =
    Comparison string string "'a jsvalue"
  | And "'a Bool" "'a Bool"
  | Or "'a Bool" "'a Bool"
  | Not "'a Bool"
  | FunctionCall string string "'a jsvalue list"

record Namespace =
  name_counter :: nat
  value_counter :: nat

definition new_Namespace :: Namespace where
  "new_Namespace = \<lparr>name_counter = 0, value_counter = 0\<rparr>"

record 'a Expression =
  Expression :: string
  ExpressionAttributeNames :: "(string \<times> string) list"
  ExpressionAttributeValues :: "(string \<times> 'a jsvalue) list"

type_synonym 'a Writer = "'a Expression"

definition new_Writer :: "'a Writer" where
  "new_Writer = \<lparr>Expression = [], ExpressionAttributeNames = [], ExpressionAttributeValues = []\<rparr>"

definition toExpression :: "'a Writer \<Rightarrow> 'a Expression" where
  "toExpression w = w"

definition writeToken :: "string \<Rightarrow> 'a Writer \<Rightarrow> 'a Writer" where
  "writeToken t w = w\<lparr>Expression := Expression w @ t\<rparr>"

definition writeName :: "string \<Rightarrow> 'a Writer \<times> Namespace \<Rightarrow> 'a Writer \<times> Namespace" where
  "writeName path wn =
     (let (w, ns) = wn
      in case find (\<lambda>(ph, nm). nm = path) (ExpressionAttributeNames w) of
           Some (ph, nm) \<Rightarrow> (writeToken ph w, ns)
         | None \<Rightarrow>
             (let ph = ''#n'' @ show_nat (name_counter ns)
              in (writeToken ph (w\<lparr>ExpressionAttributeNames := ExpressionAttributeNames w @ [(ph, path)]\<rparr>),
                  ns\<lparr>name_counter := Suc (name_counter ns)\<rparr>)))"

definition writeValue :: "'a jsvalue \<Rightarrow> 'a Writer \<times> Namespace \<Rightarrow> 'a Writer \<times> Namespace" where
  "writeValue v wn =
     (let (w, ns) = wn
      in case find (\<lambda>(ph, lit). lit = v) (ExpressionAttributeValues w) of
           Some (ph, lit) \<Rightarrow> (writeToken ph w, ns)
         | None \<Rightarrow>
             (let ph = '':v'' @ show_nat (value_counter ns)
              in (writeToken ph (w\<lparr>ExpressionAttributeValues := ExpressionAttributeValues w @ [(ph, v)]\<rparr>),
                  ns\<lparr>value_counter := Suc (value_counter ns)\<rparr>)))"

definition writeText :: "string \<Rightarrow> 'a Writer \<times> Namespace \<Rightarrow> 'a Writer \<times> Namespace" where
  "writeText t wn = (writeToken t (fst wn), snd wn)"

fun writeValues :: "'a jsvalue list \<Rightarrow> 'a Writer \<times> Namespace \<Rightarrow> 'a Writer \<times> Namespace" where
  "writeValues [] wn = wn"
| "writeValues (v # vs) wn = writeValues vs (writeValue v (writeText '', '' wn))"

fun Synthesize :: "'a Bool \<Rightarrow> 'a Writer \<times> Namespace \<Rightarrow> 'a Writer \<times> Namespace" where
  "Synthesize (Comparison path oper v) wn =
     writeValue v (writeText ('' '' @ oper @ '' '') (writeName path wn))"
| "Synthesize (And a b) wn =
     writeText '')'' (Synthesize b (writeText '') AND ('' (Synthesize a (writeText ''('' wn))))"
| "Synthesize (Or a b) wn =
     writeText '')'' (Synthesize b (writeText '') OR ('' (Synthesize a (writeText ''('' wn))))"
| "Synthesize (Not a) wn =
     writeText '')'' (Synthesize a (writeText ''NOT ('' wn))"
| "Synthesize (FunctionCall name path args) wn =
     writeText '')'' (writeValues args (writeName path (writeText (name @ ''('') wn)))"

definition writeNode :: "'a Bool \<Rightarrow> 'a Writer \<times> Namespace \<Rightarrow> 'a Writer \<times> Namespace" where
  "writeNode node wn = Synthesize node wn"

text \<open>
  The field accessors of the DSL: \<open>dsl[name]\<close> is defined for the members of the shape,
  and \<open>.equals(v)\<close> on an accessor is the comparison of its path with \<open>v\<close>; on
  \<open>undefined\<close> the call throws.
\<close>

definition dsl_equals :: "string list \<Rightarrow> string \<Rightarrow> 'a jsvalue \<Rightarrow> error + 'a Bool" where
  "dsl_equals flds name v =
     (if name \<in> set flds then Inr (Comparison name ''='' v) else Inl TypeError)"

subsection \<open>The client\<close>

datatype Key = HashKey string | SortKey string string

record ('a, 's) Props =
  props_tableName :: string
  props_client :: "('a, 's) AWS_DynamoDB option"

text \<open>
  The fields of the class. \<open>hashKeyName\<close>, \<open>sortKeyName\<close>, \<open>hashKeyMapper\<close> and
  \<open>sortKeyMapper\<close> are declared without an initialiser; a field that was never
  assigned reads as \<open>undefined\<close> (\<open>None\<close>).
\<close>

record ('a, 's) DynamoDBClient =
  dsl :: "string list"
  client :: "('a, 's) AWS_DynamoDB"
  tableName :: string
  mapper :: "'a Mapper"
  hashKeyName :: "string option"
  sortKeyName :: "string option"
  hashKeyMapper :: "'a Mapper option"
  sortKeyMapper :: "'a Mapper option"
  writeKey :: "'a jsvalue \<Rightarrow> error + 'a jsvalue"
  readKey :: "'a jsvalue \<Rightarrow> error + 'a jsvalue"

text \<open>Sequencing of steps that may throw.\<close>

definition and_then :: "error + 'x \<Rightarrow> ('x \<Rightarrow> error + 'y) \<Rightarrow> error + 'y" where
  "and_then m k = (case m of Inl e \<Rightarrow> Inl e | Inr x \<Rightarrow> k x)"

text \<open>\<open>xs.map(g)\<close> for a callback that may throw: the first throw ends the loop.\<close>

fun map_throwing :: "('x \<Rightarrow> error + 'y) \<Rightarrow> 'x list \<Rightarrow> error + 'y list" where
  "map_throwing g [] = Inr []"
| "map_throwing g (x # xs) =
     and_then (g x) (\<lambda>y. and_then (map_throwing g xs) (\<lambda>ys. Inr (y # ys)))"

text \<open>
  The constructor. \<open>new_AWS_DynamoDB\<close> is the client that \<open>new AWS.DynamoDB()\<close>
  creates when the configuration carries none. The constructor assigns \<open>dsl\<close>,
  \<open>client\<close>, \<open>tableName\<close>, \<open>mapper\<close>, \<open>writeKey\<close> and \<open>readKey\<close>; the key
  mappers it builds are local constants of its two branches, and the four key fields of
  the class stay unassigned. Reading \<open>.Type\<close> of a member the shape does not have
  throws.
\<close>

definition new_DynamoDBClient ::
  "('a, 's) AWS_DynamoDB \<Rightarrow> 'a ClassType \<Rightarrow> Key \<Rightarrow> ('a, 's) Props \<Rightarrow>
   error + ('a, 's) DynamoDBClient" where
  "new_DynamoDBClient new_AWS_DynamoDB ty key config =
     (let this = \<lparr>dsl = map fst (Members ty),
                  client = (case props_client config of Some c \<Rightarrow> c | None \<Rightarrow> new_AWS_DynamoDB),
                  tableName = props_tableName config,
                  mapper = Mapper_of ty,
                  hashKeyName = None, sortKeyName = None,
                  hashKeyMapper = None, sortKeyMapper = None,
                  writeKey = (\<lambda>k. Inr Undefined), readKey = (\<lambda>k. Inr Undefined)\<rparr>
      in case key of
           HashKey key \<Rightarrow>
             (case map_of (Members ty) key of
                None \<Rightarrow> Inl TypeError
              | Some hashKeyMapper' \<Rightarrow>
                  Inr (this\<lparr>
                    writeKey := (\<lambda>k. Inr (object_literal [(key, write_m hashKeyMapper' k)])),
                    readKey := (\<lambda>k. and_then (property k key)
                      (\<lambda>v. Inr (object_literal [(key, read_m hashKeyMapper' v)])))\<rparr>))
         | SortKey hk sk \<Rightarrow>
             (case map_of (Members ty) hk of
                None \<Rightarrow> Inl TypeError
              | Some hashKeyMapper' \<Rightarrow>
                  (case map_of (Members ty) sk of
                     None \<Rightarrow> Inl TypeError
                   | Some sortKeyMapper' \<Rightarrow>
                       Inr (this\<lparr>
                         writeKey := (\<lambda>k. and_then (index k 0) (\<lambda>k0. and_then (index k 1) (\<lambda>k1.
                           Inr (object_literal
                             [(hk, write_m hashKeyMapper' k0), (sk, write_m sortKeyMapper' k1)])))),
                         readKey := (\<lambda>k. and_then (property k hk) (\<lambda>vh. and_then (property k sk) (\<lambda>vs.
                           Inr (object_literal
                             [(hk, read_m hashKeyMapper' vh), (sk, read_m sortKeyMapper' vs)]))))\<rparr>))))"


subsection \<open>Operations\<close>

text \<open>
  Every operation returns what the promise settles with (an error when it rejects)
  together with the store's state after it. \<open>batchGet\<close> encodes the keys, submits one
  request, and decodes \<open>{M: item.Item}\<close> for every entry of the table's response
  list; without a \<open>Responses\<close> section, or without an entry for the table in it, it
  throws \<open>new Error('TODO')\<close>.
\<close>

definition batchGet ::
  "('a, 's) DynamoDBClient \<Rightarrow> 'a jsvalue list \<Rightarrow> 's \<Rightarrow> (error + 'a jsvalue) \<times> 's" where
  "batchGet this keys st =
     (case map_throwing (writeKey this) keys of
        Inl e \<Rightarrow> (Inl e, st)
      | Inr wkeys \<Rightarrow>
          (case batchGetItem (client this)
                  (Object [(''RequestItems'',
                     object_literal [(tableName this, Object [(''Keys'', Array wkeys)])])]) st of
             (Inl e, st') \<Rightarrow> (Inl e, st')
           | (Inr result, st') \<Rightarrow>
               (case Responses result of
                  None \<Rightarrow> (Inl (Error ''TODO''), st')
                | Some responses \<Rightarrow>
                    (case map_of responses (tableName this) of
                       None \<Rightarrow> (Inl (Error ''TODO''), st')
                     | Some items \<Rightarrow>
                         (and_then
                            (map_throwing (\<lambda>item. and_then (property item ''Item'')
                               (\<lambda>i. Inr (read_m (mapper this) (Object [(''M'', i)])))) items)
                            (\<lambda>rs. Inr (Array rs)), st')))))"

text \<open>
  \<open>batchPut\<close> wraps \<open>mapper.write(record).M\<close> of every record in a put request and
  submits them in one request. Without an \<open>UnprocessedItems\<close> section it returns
  \<open>[]\<close>, otherwise \<open>result.UnprocessedItems[this.tableName]\<close>, which is
  \<open>undefined\<close> when that section has no entry for the table. The \<open>catch\<close> block
  logs and rethrows, so an error leaves as it came.
\<close>

definition batchPut ::
  "('a, 's) DynamoDBClient \<Rightarrow> 'a jsvalue list \<Rightarrow> 's \<Rightarrow> (error + 'a jsvalue) \<times> 's" where
  "batchPut this batch st =
     (case map_throwing (\<lambda>rcd. and_then (property (write_m (mapper this) rcd) ''M'')
               (\<lambda>m. Inr (Object [(''PutRequest'', Object [(''Item'', m)])]))) batch of
        Inl e \<Rightarrow> (Inl e, st)
      | Inr requests \<Rightarrow>
          (case batchWriteItem (client this)
                  (Object [(''RequestItems'', object_literal [(tableName this, Array requests)])]) st of
             (Inl e, st') \<Rightarrow> (Inl e, st')
           | (Inr result, st') \<Rightarrow>
               (case UnprocessedItems result of
                  None \<Rightarrow> (Inr (Array []), st')
                | Some unprocessed \<Rightarrow>
                    (Inr (case map_of unprocessed (tableName this) of
                            None \<Rightarrow> Undefined
                          | Some ws \<Rightarrow> Array ws), st'))))"

definition scan :: "('a, 's) DynamoDBClient \<Rightarrow> 's \<Rightarrow> (error + 'a jsvalue) \<times> 's" where
  "scan this st =
     (case aws_scan (client this) (Object [(''TableName'', Str (tableName this))]) st of
        (Inl e, st') \<Rightarrow> (Inl e, st')
      | (Inr result, st') \<Rightarrow>
          (case Items result of
             Some items \<Rightarrow>
               (Inr (Array (map (\<lambda>item. read_m (mapper this) (Object [(''M'', item)])) items)), st')
           | None \<Rightarrow> (Inr (Array []), st')))"

text \<open>
  \<open>query\<close>. The condition is a hash key value, or the array of a hash key value and a
  condition on the sort key. The filter, when given, is written first, by a writer of its
  own on the namespace of the request; then \<open>this.hashKeyMapper.write\<close> is called, which
  throws when the field is \<open>undefined\<close>; then the key condition is built from
  \<open>this.dsl[this.hashKeyName]\<close> (the property named \<open>undefined\<close> when the field is
  \<open>undefined\<close>) and written by the query writer. The request takes its
  \<open>KeyConditionExpression\<close>, \<open>ExpressionAttributeNames\<close> and
  \<open>ExpressionAttributeValues\<close> from the query writer's expression and its
  \<open>FilterExpression\<close> from the filter writer's. \<open>query_input\<close> is the part of
  the method up to the argument of \<open>this.client.query\<close> (the request, or the error
  thrown on the way to it); \<open>query\<close> submits that request and returns the response
  with its \<open>Items\<close> decoded and its \<open>LastEvaluatedKey\<close> read back,
  \<open>{...result, Items, LastEvaluatedKey}\<close>.
\<close>

datatype 'a QueryCondition = HashValue "'a jsvalue" | HashAndSort "'a jsvalue" "'a Bool"

record 'a QueryProps =
  exclusiveStartKey :: "'a jsvalue option"
  filter_p :: "(string list \<Rightarrow> 'a Bool) option"

definition names_object :: "(string \<times> string) list \<Rightarrow> 'a jsvalue" where
  "names_object names = Object (map (\<lambda>(ph, nm). (ph, Str nm)) names)"

definition query_request ::
  "string \<Rightarrow> 'a Expression \<Rightarrow> 'a Expression option \<Rightarrow> 'a jsvalue \<Rightarrow> 'a jsvalue" where
  "query_request table queryExpr filterExpr startKey =
     Object [(''TableName'', Str table),
             (''KeyConditionExpression'', Str (Expression queryExpr)),
             (''FilterExpression'',
                (case filterExpr of None \<Rightarrow> Undefined | Some fe \<Rightarrow> Str (Expression fe))),
             (''ExpressionAttributeNames'', names_object (ExpressionAttributeNames queryExpr)),
             (''ExpressionAttributeValues'', Object (ExpressionAttributeValues queryExpr)),
             (''ExclusiveStartKey'', startKey)]"

definition query_input ::
  "('a, 's) DynamoDBClient \<Rightarrow> 'a QueryCondition \<Rightarrow> 'a QueryProps \<Rightarrow> error + 'a jsvalue" where
  "query_input this condition props =
     (let namespace = new_Namespace;
          queryWriter = new_Writer;
          (filterExpr, namespace) =
            (case filter_p props of
               None \<Rightarrow> (None, namespace)
             | Some flt \<Rightarrow>
                 (let (filterWriter, namespace) = Synthesize (flt (dsl this)) (new_Writer, namespace)
                  in (Some (toExpression filterWriter), namespace)))
      in case hashKeyMapper this of
           None \<Rightarrow> Inl TypeError
         | Some hkm \<Rightarrow>
             (let hashKeyValue =
                    write_m hkm (case condition of HashAndSort v sortKeyCond \<Rightarrow> v | HashValue v \<Rightarrow> v)
              in case dsl_equals (dsl this)
                        (case hashKeyName this of None \<Rightarrow> ''undefined'' | Some n \<Rightarrow> n)
                        hashKeyValue of
                   Inl e \<Rightarrow> Inl e
                 | Inr hashKeyCond \<Rightarrow>
                     (let (queryWriter, namespace) =
                            writeNode
                              (case condition of
                                 HashAndSort v sortKeyCond \<Rightarrow> And hashKeyCond sortKeyCond
                               | HashValue v \<Rightarrow> hashKeyCond)
                              (queryWriter, namespace);
                          queryExpr = toExpression queryWriter
                      in case (case exclusiveStartKey props of
                                 None \<Rightarrow> Inr Undefined
                               | Some k \<Rightarrow> writeKey this k) of
                           Inl e \<Rightarrow> Inl e
                         | Inr startKey \<Rightarrow>
                             Inr (query_request (tableName this) queryExpr filterExpr startKey))))"

definition query ::
  "('a, 's) DynamoDBClient \<Rightarrow> 'a QueryCondition \<Rightarrow> 'a QueryProps \<Rightarrow> 's \<Rightarrow>
   (error + 'a jsvalue) \<times> 's" where
  "query this condition props st =
     (case query_input this condition props of
        Inl e \<Rightarrow> (Inl e, st)
      | Inr request \<Rightarrow>
          (case aws_query (client this) request st of
             (Inl e, st') \<Rightarrow> (Inl e, st')
           | (Inr result, st') \<Rightarrow>
               (and_then
                  (case LastEvaluatedKey result of
                     None \<Rightarrow> Inr Undefined
                   | Some k \<Rightarrow> readKey this k)
                  (\<lambda>lek. Inr (object_literal
                     (spread result @
                      [(''Items'',
                          (case Items result of
                             None \<Rightarrow> Undefined
                           | Some vs \<Rightarrow>
                               Array (map (\<lambda>v. read_m (mapper this) (Object [(''M'', v)])) vs))),
                       (''LastEvaluatedKey'', lek)]))), st')))"

section \<open>Reference definitions and examples\<close>

text \<open>
  The grouping that the description of \<open>batched\<close> gives: groups of exactly \<open>n\<close>
  elements in order, then the remainder when it is not empty.
\<close>

function chunks :: "nat \<Rightarrow> 'x list \<Rightarrow> 'x list list" where
  "chunks n xs =
     (if xs = [] then [] else if n = 0 then [xs] else take n xs # chunks n (drop n xs))"
  by pat_completeness auto
termination
  by (relation "measure (\<lambda>(n, xs). length xs)") auto

declare chunks.simps [simp del]

text \<open>A heap whose only array is the empty dependency list, at address 0.\<close>

definition example_heap :: "string heap" where
  "example_heap = \<lparr>cells = (\<lambda>r. []), fresh = Suc 0\<rparr>"

text \<open>A source stage that yields the client list it was run with.\<close>

definition example_source :: "(unit, string list, string) Enumerable" where
  "example_source =
     Root (\<lambda>ev cl. [Value (case cl of None \<Rightarrow> [''undefined''] | Some cs \<Rightarrow> cs)]) 0"

text \<open>A handler that yields its input and then the client it was given.\<close>

definition example_tag :: "string list jsvalue \<Rightarrow> string option \<Rightarrow> string list jsvalue list" where
  "example_tag v c = [v, Value (case c of None \<Rightarrow> [] | Some x \<Rightarrow> [x])]"

definition example_numbers :: "(unit, nat, string) Enumerable" where
  "example_numbers = Root (\<lambda>ev cl. [Value 1, Value 2, Value 3]) 0"

fun example_incr :: "nat jsvalue \<Rightarrow> string option \<Rightarrow> nat jsvalue" where
  "example_incr (Value n) c = Value (n + 1)"
| "example_incr v c = v"

fun example_double :: "nat jsvalue \<Rightarrow> string option \<Rightarrow> nat jsvalue" where
  "example_double (Value n) c = Value (2 * n)"
| "example_double v c = v"

text \<open>
  A Mapper that wraps a value under one attribute tag and unwraps it again, a two-sided
  inverse on the values it writes; a record type with a string member \<open>key\<close> and a
  number member \<open>count\<close>.
\<close>

definition tag_Mapper :: "string \<Rightarrow> 'a Mapper" where
  "tag_Mapper t =
     \<lparr>write_m = (\<lambda>v. Object [(t, v)]),
      read_m = (\<lambda>w. case property w t of Inl e \<Rightarrow> Undefined | Inr v \<Rightarrow> v)\<rparr>"

definition example_type :: "nat ClassType" where
  "example_type =
     \<lparr>Members = [(''key'', tag_Mapper ''S''), (''count'', tag_Mapper ''N'')],
      Mapper_of = tag_Mapper ''M''\<rparr>"

text \<open>
  Stores for the examples; their state is the list of the requests they have received.
  \<open>example_store out\<close> answers every request with \<open>out\<close>.
\<close>

definition no_sections :: "nat AWS_Output" where
  "no_sections =
     \<lparr>Items = None, Responses = None, UnprocessedItems = None, LastEvaluatedKey = None,
      OtherMembers = []\<rparr>"

definition example_store :: "nat AWS_Output \<Rightarrow> (nat, nat jsvalue list) AWS_DynamoDB" where
  "example_store out =
     \<lparr>batchGetItem = (\<lambda>req st. (Inr out, st @ [req])),
      batchWriteItem = (\<lambda>req st. (Inr out, st @ [req])),
      aws_scan = (\<lambda>req st. (Inr out, st @ [req])),
      aws_query = (\<lambda>req st. (Inr out, st @ [req]))\<rparr>"

definition example_props :: "nat AWS_Output \<Rightarrow> (nat, nat jsvalue list) Props" where
  "example_props out = \<lparr>props_tableName = ''t'', props_client = Some (example_store out)\<rparr>"

text \<open>The client that the constructor builds, or \<open>None\<close> when the constructor throws.\<close>

definition example_client ::
  "Key \<Rightarrow> nat AWS_Output \<Rightarrow> (nat, nat jsvalue list) DynamoDBClient option" where
  "example_client key out =
     (case new_DynamoDBClient (example_store no_sections) example_type key (example_props out) of
        Inl e \<Rightarrow> None
      | Inr c \<Rightarrow> Some c)"

text \<open>
  A client for the hash key \<open>key\<close> and the sort key \<open>count\<close> whose fields
  \<open>hashKeyName\<close> and \<open>hashKeyMapper\<close> hold the name and the Mapper of the hash key,
  as their declarations say. The constructor does not build it.
\<close>

definition example_client_with_key_fields ::
  "nat AWS_Output \<Rightarrow> (nat, nat jsvalue list) DynamoDBClient option" where
  "example_client_with_key_fields out =
     map_option (\<lambda>c. c\<lparr>hashKeyName := Some ''key'', hashKeyMapper := Some (tag_Mapper ''S'')\<rparr>)
       (example_client (SortKey ''key'' ''count'') out)"

section \<open>Properties of the stage engine\<close>

subsection \<open>Batching\<close>

lemma batched_loop_unsized:
  "(case sz of None \<Rightarrow> True | Some n \<Rightarrow> n \<le> 0) \<Longrightarrow>
   batched_loop sz batch it = (if batch @ it = [] then [] else [Array (batch @ it)])"
  by (induction it arbitrary: batch) (auto split: option.splits simp: Let_def)

lemma batched_loop_fill:
  "length batch + length it < n \<Longrightarrow>
   batched_loop (Some (int n)) batch it = (if batch @ it = [] then [] else [Array (batch @ it)])"
  by (induction it arbitrary: batch) (auto simp: Let_def)

lemma batched_loop_emit:
  "length batch < n \<Longrightarrow> n \<le> length batch + length it \<Longrightarrow>
   batched_loop (Some (int n)) batch it =
     Array (batch @ take (n - length batch) it) # batched_loop (Some (int n)) [] (drop (n - length batch) it)"
proof (induction it arbitrary: batch)
  case Nil
  then show ?case by simp
next
  case (Cons v it)
  show ?case
  proof (cases "Suc (length batch) = n")
    case True
    then have "n - length batch = Suc 0" by simp
    then show ?thesis using True by (simp add: Let_def)
  next
    case False
    with Cons.prems have lt: "length (batch @ [v]) < n" and le: "n \<le> length (batch @ [v]) + length it"
      by auto
    have "batched_loop (Some (int n)) batch (v # it) = batched_loop (Some (int n)) (batch @ [v]) it"
      using False by (auto simp: Let_def)
    also have "\<dots> = Array ((batch @ [v]) @ take (n - length (batch @ [v])) it)
        # batched_loop (Some (int n)) [] (drop (n - length (batch @ [v])) it)"
      by (rule Cons.IH [OF lt le])
    also have "(batch @ [v]) @ take (n - length (batch @ [v])) it = batch @ take (n - length batch) (v # it)"
      using lt by (simp add: take_Cons')
    also have "drop (n - length (batch @ [v])) it = drop (n - length batch) (v # it)"
      using lt by (simp add: drop_Cons')
    finally show ?thesis .
  qed
qed

lemma batched_loop_chunks:
  "0 < n \<Longrightarrow> batched_loop (Some (int n)) [] xs = map Array (chunks n xs)"
proof (induction n xs rule: chunks.induct)
  case (1 n xs)
  show ?case
  proof (cases "length xs < n")
    case True
    then show ?thesis using 1
      by (simp add: batched_loop_fill chunks.simps [of n xs] chunks.simps [of n "[]"])
  next
    case False
    then have ne: "xs \<noteq> []" using 1 by auto
    have "batched_loop (Some (int n)) [] xs = Array (take n xs) # batched_loop (Some (int n)) [] (drop n xs)"
      using batched_loop_emit [of "[]" n xs] False 1 by simp
    then show ?thesis using 1 ne by (simp add: chunks.simps [of n xs])
  qed
qed

lemma concat_chunks: "concat (chunks n xs) = xs"
  by (induction n xs rule: chunks.induct) (simp add: chunks.simps)

lemma chunks_nonempty: "0 < n \<Longrightarrow> b \<in> set (chunks n xs) \<Longrightarrow> b \<noteq> [] \<and> length b \<le> n"
proof (induction n xs rule: chunks.induct)
  case (1 n xs)
  show ?case
  proof (cases "xs = []")
    case True then show ?thesis using 1 by (simp add: chunks.simps)
  next
    case False
    then have c: "chunks n xs = take n xs # chunks n (drop n xs)" using 1 by (simp add: chunks.simps [of n xs])
    with 1 False show ?thesis by auto
  qed
qed

lemma chunks_butlast: "0 < n \<Longrightarrow> b \<in> set (butlast (chunks n xs)) \<Longrightarrow> length b = n"
proof (induction n xs rule: chunks.induct)
  case (1 n xs)
  show ?case
  proof (cases "xs = []")
    case True then show ?thesis using 1 by (simp add: chunks.simps)
  next
    case False
    then have c: "chunks n xs = take n xs # chunks n (drop n xs)" using 1 by (simp add: chunks.simps [of n xs])
    show ?thesis
    proof (cases "chunks n (drop n xs) = []")
      case True then show ?thesis using c 1 by simp
    next
      case ne: False
      then have "drop n xs \<noteq> []" by (auto simp: chunks.simps)
      then have "n < length xs" by simp
      with 1 False c ne show ?thesis by auto
    qed
  qed
qed

text \<open>
  Claim C5. For a size \<open>n > 0\<close>, \<open>batched(n)\<close> yields the upstream sequence cut into
  arrays in arrival order: every array but the last has exactly \<open>n\<close> elements, no array
  is empty and none is longer than \<open>n\<close>, so a final shorter group is emitted exactly
  when elements remain. Without a size the whole upstream sequence is one array, and
  nothing is yielded for an empty upstream. \<open>batched(3)\<close> over \<open>[a,b,c,d,e]\<close> yields
  \<open>[[a,b,c],[d,e]]\<close> and \<open>batched()\<close> over \<open>[]\<close> yields \<open>[]\<close>. The stage
  that \<open>batched\<close> returns runs its predecessor with the same client list and groups
  what it yields.
\<close>

theorem batched_groups:
  assumes "0 < n"
  shows "(\<exists>bs. batched_handle (Some (int n)) xs cl = map Array bs \<and> concat bs = xs \<and>
              (\<forall>b \<in> set (butlast bs). length b = n) \<and>
              (\<forall>b \<in> set bs. b \<noteq> [] \<and> length b \<le> n)) \<and>
         batched_handle None xs cl = (if xs = [] then [] else [Array xs]) \<and>
         batched_handle (Some 3) [a, b, c, d, e] cl = [Array [a, b, c], Array [d, e]] \<and>
         batched_handle None [] cl = [] \<and>
         run (batched sz s) ev deps = batched_handle sz (run s ev deps) (client0 deps)"
proof -
  have "batched_handle (Some (int n)) xs cl = map Array (chunks n xs)"
    using assms by (simp add: batched_handle_def batched_loop_chunks)
  moreover have "concat (chunks n xs) = xs"
    by (rule concat_chunks)
  moreover have "\<forall>b \<in> set (butlast (chunks n xs)). length b = n"
    using assms chunks_butlast by blast
  moreover have "\<forall>b \<in> set (chunks n xs). b \<noteq> [] \<and> length b \<le> n"
    using assms chunks_nonempty by blast
  ultimately have groups: "\<exists>bs. batched_handle (Some (int n)) xs cl = map Array bs \<and> concat bs = xs \<and>
              (\<forall>b \<in> set (butlast bs). length b = n) \<and>
              (\<forall>b \<in> set bs. b \<noteq> [] \<and> length b \<le> n)"
    by blast
  have unsized: "batched_handle None xs cl = (if xs = [] then [] else [Array xs])"
    by (simp add: batched_handle_def batched_loop_unsized)
  have ex1: "batched_handle (Some 3) [a, b, c, d, e] cl = [Array [a, b, c], Array [d, e]]"
    by (simp add: batched_handle_def Let_def)
  have ex2: "batched_handle None [] cl = []"
    by (simp add: batched_handle_def)
  have stage: "run (batched sz s) ev deps = batched_handle sz (run s ev deps) (client0 deps)"
    by (simp add: batched_def chain_def)
  show ?thesis
    using groups unsized ex1 ex2 stage by blast
qed

theorem batched_groups_witness:
  "(0::nat) < 2 \<and>
   batched_handle (Some 2) [Value (1::nat), Value 2, Value 3] (None :: string option)
     = [Array [Value 1, Value 2], Array [Value 3]] \<and>
   batched_handle None [Value (1::nat), Value 2, Value 3] (None :: string option)
     = [Array [Value 1, Value 2, Value 3]] \<and>
   run (batched (Some 2) example_numbers) () None = [Array [Value 1, Value 2], Array [Value 3]]"
proof -
  have n: "(0::nat) < 2" by simp
  show ?thesis
    using n batched_groups [OF n, of "[Value (1::nat), Value 2, Value 3]" "None :: string option"
        Undefined Undefined Undefined Undefined Undefined "Some 2" example_numbers "()" None]
    by (simp add: batched_handle_def example_numbers_def Let_def)
qed

subsection \<open>map and flatMap\<close>

lemma flatMap_handle_concat:
  "flatMap_handle hdl xs c = concat (map (\<lambda>x. hdl x c) xs)"
  by (induction xs) simp_all

lemma flatMap_handle_singleton:
  "flatMap_handle (\<lambda>v c. [g v c]) xs c = map (\<lambda>x. g x c) xs"
  by (induction xs) simp_all

lemma run_flatMap:
  "allocated h (dependencies s) \<Longrightarrow>
   run (fst (flatMap inp s h)) ev cl =
     flatMap_handle (handle inp) (run s ev (if depends inp = None then cl else tail_clients cl)) (client0 cl)"
  by (auto simp: flatMap_def chain_def alloc_def allocated_def Let_def split: option.splits)

lemma flatMap_allocated:
  "allocated h (dependencies s) \<Longrightarrow> allocated (snd (flatMap inp s h)) (dependencies (fst (flatMap inp s h)))"
  by (auto simp: flatMap_def chain_def alloc_def allocated_def Let_def split: option.splits)

lemma run_map:
  "allocated h (dependencies s) \<Longrightarrow>
   run (fst (map_Enumerable inp s h)) ev cl =
     map (\<lambda>x. handle inp x (client0 cl)) (run s ev (if depends inp = None then cl else tail_clients cl))"
  by (simp add: map_Enumerable_def run_flatMap flatMap_handle_singleton)

lemma map_allocated:
  "allocated h (dependencies s) \<Longrightarrow>
   allocated (snd (map_Enumerable inp s h)) (dependencies (fst (map_Enumerable inp s h)))"
  by (simp add: map_Enumerable_def flatMap_allocated)

lemma flatMap_dependencies:
  assumes "allocated h (dependencies s)"
  shows "(depends inp = None \<longrightarrow>
            dependencies (fst (flatMap inp s h)) = dependencies s \<and> snd (flatMap inp s h) = h) \<and>
         (\<forall>d. depends inp = Some d \<longrightarrow>
            deref (snd (flatMap inp s h)) (dependencies (fst (flatMap inp s h))) = d # deref h (dependencies s) \<and>
            dependencies (fst (flatMap inp s h)) \<noteq> dependencies s \<and>
            (\<forall>r. allocated h r \<longrightarrow> deref (snd (flatMap inp s h)) r = deref h r))"
  using assms
  by (auto simp: flatMap_def chain_def alloc_def allocated_def deref_def Let_def split: option.splits)

text \<open>
  Claim C6. Draining \<open>stage.map(f).map(g)\<close> yields \<open>g(f(x))\<close> for every value \<open>x\<close>
  that the stage yields, in the same order; each handler is called with the value and
  the client of its own stage, and a stage that declares a dependency passes the tail of
  its client list down. \<open>map\<close> is \<open>flatMap\<close> with the handler's result wrapped in a
  one-element array, and \<open>flatMap\<close> yields the results of the handler for each
  upstream value in turn.
\<close>

theorem map_map_fusion:
  assumes "allocated h (dependencies stage)"
  shows "(let (s1, h1) = map_Enumerable \<lparr>depends = d1, handle = f\<rparr> stage h;
              (s2, h2) = map_Enumerable \<lparr>depends = d2, handle = g\<rparr> s1 h1;
              cl1 = (if d2 = None then cl else tail_clients cl);
              cl0 = (if d1 = None then cl1 else tail_clients cl1)
          in run s2 ev cl = map (\<lambda>x. g (f x (client0 cl1)) (client0 cl)) (run stage ev cl0)) \<and>
         run (fst (flatMap inp stage h)) ev cl =
           concat (map (\<lambda>x. handle inp x (client0 cl))
             (run stage ev (if depends inp = None then cl else tail_clients cl))) \<and>
         map_Enumerable minp stage h =
           flatMap \<lparr>depends = depends minp, handle = (\<lambda>v c. [handle minp v c])\<rparr> stage h"
proof -
  obtain s1 h1 where m1: "map_Enumerable \<lparr>depends = d1, handle = f\<rparr> stage h = (s1, h1)"
    by (cases "map_Enumerable \<lparr>depends = d1, handle = f\<rparr> stage h")
  obtain s2 h2 where m2: "map_Enumerable \<lparr>depends = d2, handle = g\<rparr> s1 h1 = (s2, h2)"
    by (cases "map_Enumerable \<lparr>depends = d2, handle = g\<rparr> s1 h1")
  have a1: "allocated h1 (dependencies s1)"
    using map_allocated [OF assms, of "\<lparr>depends = d1, handle = f\<rparr>"] m1 by simp
  have r1: "run s1 ev c' =
      map (\<lambda>x. f x (client0 c')) (run stage ev (if d1 = None then c' else tail_clients c'))" for c'
    using run_map [OF assms, of "\<lparr>depends = d1, handle = f\<rparr>" ev c'] m1 by simp
  have r2: "run s2 ev cl =
      map (\<lambda>x. g x (client0 cl)) (run s1 ev (if d2 = None then cl else tail_clients cl))"
    using run_map [OF a1, of "\<lparr>depends = d2, handle = g\<rparr>" ev cl] m2 by simp
  have fused: "(let (s1, h1) = map_Enumerable \<lparr>depends = d1, handle = f\<rparr> stage h;
              (s2, h2) = map_Enumerable \<lparr>depends = d2, handle = g\<rparr> s1 h1;
              cl1 = (if d2 = None then cl else tail_clients cl);
              cl0 = (if d1 = None then cl1 else tail_clients cl1)
          in run s2 ev cl = map (\<lambda>x. g (f x (client0 cl1)) (client0 cl)) (run stage ev cl0))"
    by (simp add: m1 m2 r2 r1 Let_def o_def)
  have flat: "run (fst (flatMap inp stage h)) ev cl =
           concat (map (\<lambda>x. handle inp x (client0 cl))
             (run stage ev (if depends inp = None then cl else tail_clients cl)))"
    by (simp add: run_flatMap [OF assms] flatMap_handle_concat)
  have wrap: "map_Enumerable minp stage h =
           flatMap \<lparr>depends = depends minp, handle = (\<lambda>v c. [handle minp v c])\<rparr> stage h"
    by (simp add: map_Enumerable_def)
  show ?thesis
    using fused flat wrap by blast
qed

theorem map_map_fusion_witness:
  "allocated example_heap (dependencies example_numbers) \<and>
   (let (s1, h1) = map_Enumerable \<lparr>depends = None, handle = example_incr\<rparr> example_numbers example_heap;
        (s2, h2) = map_Enumerable \<lparr>depends = None, handle = example_double\<rparr> s1 h1
    in run s2 () None = [Value 4, Value 6, Value 8])"
proof -
  have a: "allocated example_heap (dependencies example_numbers)"
    by (simp add: allocated_def example_heap_def example_numbers_def)
  show ?thesis
    using a map_map_fusion [where h = example_heap and stage = example_numbers and ?d1.0 = None
        and f = example_incr and ?d2.0 = None and g = example_double and cl = None and ev = "()"
        and inp = "\<lparr>depends = None, handle = (\<lambda>v c. [])\<rparr>"
        and minp = "\<lparr>depends = None, handle = (\<lambda>v c. v)\<rparr>", OF a, THEN conjunct1]
    by (simp add: example_numbers_def split: prod.splits)
qed


subsection \<open>Dependency lists\<close>

text \<open>
  Claim C7. When \<open>flatMap\<close> or \<open>map\<close> declares a dependency \<open>d\<close>, the new stage's
  dependency list is a new array object that holds \<open>d\<close> at index 0, followed by the
  predecessor's list, and every array that existed before is unchanged. When no
  dependency is declared, the new stage holds the very same array object as its
  predecessor and nothing is allocated.
\<close>

theorem dependency_prepended:
  assumes "allocated h (dependencies s)"
  shows "(depends inp = None \<longrightarrow>
            dependencies (fst (flatMap inp s h)) = dependencies s \<and> snd (flatMap inp s h) = h) \<and>
         (\<forall>d. depends inp = Some d \<longrightarrow>
            deref (snd (flatMap inp s h)) (dependencies (fst (flatMap inp s h))) = d # deref h (dependencies s) \<and>
            dependencies (fst (flatMap inp s h)) \<noteq> dependencies s \<and>
            (\<forall>r. allocated h r \<longrightarrow> deref (snd (flatMap inp s h)) r = deref h r)) \<and>
         (depends minp = None \<longrightarrow>
            dependencies (fst (map_Enumerable minp s h)) = dependencies s \<and> snd (map_Enumerable minp s h) = h) \<and>
         (\<forall>d. depends minp = Some d \<longrightarrow>
            deref (snd (map_Enumerable minp s h)) (dependencies (fst (map_Enumerable minp s h))) = d # deref h (dependencies s) \<and>
            dependencies (fst (map_Enumerable minp s h)) \<noteq> dependencies s \<and>
            (\<forall>r. allocated h r \<longrightarrow> deref (snd (map_Enumerable minp s h)) r = deref h r))"
  using flatMap_dependencies [OF assms, of inp]
    flatMap_dependencies [OF assms, of "\<lparr>depends = depends minp, handle = (\<lambda>v c. [handle minp v c])\<rparr>"]
  by (simp add: map_Enumerable_def)

theorem dependency_prepended_witness:
  "allocated example_heap (dependencies example_source) \<and>
   deref (snd (flatMap \<lparr>depends = Some ''D1'', handle = example_tag\<rparr> example_source example_heap))
     (dependencies (fst (flatMap \<lparr>depends = Some ''D1'', handle = example_tag\<rparr> example_source example_heap)))
     = [''D1''] \<and>
   dependencies (fst (flatMap \<lparr>depends = Some ''D1'', handle = example_tag\<rparr> example_source example_heap)) \<noteq> 0 \<and>
   dependencies (fst (flatMap \<lparr>depends = None, handle = example_tag\<rparr> example_source example_heap)) = 0 \<and>
   snd (flatMap \<lparr>depends = None, handle = example_tag\<rparr> example_source example_heap) = example_heap"
proof -
  have a: "allocated example_heap (dependencies example_source)"
    by (simp add: allocated_def example_heap_def example_source_def)
  have e: "deref example_heap (dependencies example_source) = []"
    by (simp add: deref_def example_heap_def example_source_def)
  have d: "dependencies example_source = 0"
    by (simp add: example_source_def)
  show ?thesis
    using a e d
      dependency_prepended [OF a, of "\<lparr>depends = Some ''D1'', handle = example_tag\<rparr>"
        "\<lparr>depends = None, handle = (\<lambda>v c. v)\<rparr>"]
      dependency_prepended [OF a, of "\<lparr>depends = None, handle = example_tag\<rparr>"
        "\<lparr>depends = None, handle = (\<lambda>v c. v)\<rparr>"]
    by simp
qed

subsection \<open>Running a chain\<close>

text \<open>
  Claim C1. \<open>run\<close> of a stage calls the predecessor's \<open>run\<close> with the same client
  list when the two stages hold the same dependency array object, and with the list
  without its index 0 otherwise; the stage's own transformation receives index 0. For
  a source \<open>s0\<close> without dependency, \<open>s1\<close> declaring \<open>D1\<close> on it and \<open>s2\<close>
  declaring \<open>D2\<close> on \<open>s1\<close>, running \<open>s2\<close> with \<open>[c2, c1]\<close> runs \<open>s1\<close> with
  \<open>[c1]\<close> and \<open>s0\<close> with \<open>[]\<close>, the handlers receiving \<open>c2\<close> and \<open>c1\<close>.
\<close>

theorem run_dependency_slicing:
  assumes "allocated h r0"
  shows "run (Enumerable p f ds) ev (Some cs) =
           f (run p ev (Some (if ds = dependencies p then cs else drop 1 cs)))
             (case cs of [] \<Rightarrow> None | c # _ \<Rightarrow> Some c) \<and>
         run (Enumerable p f ds) ev None =
           f (run p ev (if ds = dependencies p then None else Some [])) None \<and>
         (let (s1, h1) = flatMap \<lparr>depends = Some D1, handle = g1\<rparr> (Root src r0) h;
              (s2, h2) = flatMap \<lparr>depends = Some D2, handle = g2\<rparr> s1 h1
          in run s2 ev (Some [c2, c1]) = flatMap_handle g2 (run s1 ev (Some [c1])) (Some c2) \<and>
             run s1 ev (Some [c1]) = flatMap_handle g1 (src ev (Some [])) (Some c1) \<and>
             deref h2 (dependencies s2) = D2 # D1 # deref h r0)"
proof -
  obtain s1 h1 where f1: "flatMap \<lparr>depends = Some D1, handle = g1\<rparr> (Root src r0) h = (s1, h1)"
    by (cases "flatMap \<lparr>depends = Some D1, handle = g1\<rparr> (Root src r0) h")
  obtain s2 h2 where f2: "flatMap \<lparr>depends = Some D2, handle = g2\<rparr> s1 h1 = (s2, h2)"
    by (cases "flatMap \<lparr>depends = Some D2, handle = g2\<rparr> s1 h1")
  have a0: "allocated h (dependencies (Root src r0))"
    using assms by simp
  have a1: "allocated h1 (dependencies s1)"
    using flatMap_allocated [OF a0, of "\<lparr>depends = Some D1, handle = g1\<rparr>"] f1 by simp
  have r1: "run s1 ev cl = flatMap_handle g1 (src ev (tail_clients cl)) (client0 cl)" for cl
    using run_flatMap [OF a0, of "\<lparr>depends = Some D1, handle = g1\<rparr>" ev cl] f1 by simp
  have r2: "run s2 ev cl = flatMap_handle g2 (run s1 ev (tail_clients cl)) (client0 cl)" for cl
    using run_flatMap [OF a1, of "\<lparr>depends = Some D2, handle = g2\<rparr>" ev cl] f2 by simp
  have d1: "deref h1 (dependencies s1) = D1 # deref h r0"
    using flatMap_dependencies [OF a0, of "\<lparr>depends = Some D1, handle = g1\<rparr>"] f1 by simp
  have d2: "deref h2 (dependencies s2) = D2 # deref h1 (dependencies s1)"
    using flatMap_dependencies [OF a1, of "\<lparr>depends = Some D2, handle = g2\<rparr>"] f2 by simp
  have scen: "run s2 ev (Some [c2, c1]) = flatMap_handle g2 (run s1 ev (Some [c1])) (Some c2) \<and>
      run s1 ev (Some [c1]) = flatMap_handle g1 (src ev (Some [])) (Some c1) \<and>
      deref h2 (dependencies s2) = D2 # D1 # deref h r0"
    by (simp add: r2 r1 d1 d2 tail_clients_def client0_def)
  have gen: "run (Enumerable p f ds) ev (Some cs) =
           f (run p ev (Some (if ds = dependencies p then cs else drop 1 cs)))
             (case cs of [] \<Rightarrow> None | c # _ \<Rightarrow> Some c)"
    by (simp add: tail_clients_def client0_def)
  have gen0: "run (Enumerable p f ds) ev None =
           f (run p ev (if ds = dependencies p then None else Some [])) None"
    by (simp add: tail_clients_def client0_def)
  show ?thesis
    using gen gen0 scen by (simp add: f1 f2)
qed

theorem run_dependency_slicing_witness:
  "allocated example_heap 0 \<and>
   (let (s1, h1) = flatMap \<lparr>depends = Some ''D1'', handle = example_tag\<rparr> example_source example_heap;
        (s2, h2) = flatMap \<lparr>depends = Some ''D2'', handle = example_tag\<rparr> s1 h1
    in run s2 () (Some [''c2'', ''c1'']) =
         [Value [], Value [''c2''], Value [''c1''], Value [''c2'']] \<and>
       run s1 () (Some [''c1'']) = [Value [], Value [''c1'']] \<and>
       deref h2 (dependencies s2) = [''D2'', ''D1''])"
proof -
  have a: "allocated example_heap 0"
    by (simp add: allocated_def example_heap_def)
  have e: "deref example_heap 0 = []"
    by (simp add: deref_def example_heap_def)
  show ?thesis
    using a e run_dependency_slicing [where h = example_heap and ?r0.0 = 0 and ?D1.0 = "''D1''" and ?g1.0 = example_tag
        and src = "\<lambda>ev cl. [Value (case cl of None \<Rightarrow> [''undefined''] | Some cs \<Rightarrow> cs)]"
        and ?D2.0 = "''D2''" and ?g2.0 = example_tag and ev = "()" and ?c2.0 = "''c2''" and ?c1.0 = "''c1''"
        and p = example_source and f = "\<lambda>xs c. xs" and ds = 0 and cs = "[]", OF a]
    by (simp add: example_source_def example_tag_def split: prod.splits)
qed

section \<open>Properties of the key-value client\<close>

subsection \<open>Key marshaling\<close>

lemma jsvalue_not_own_property: "Object [(k, v)] \<noteq> v"
proof
  assume "Object [(k, v)] = v"
  then have "size (Object [(k, v)]) = size v" by simp
  then show False by simp
qed

lemma tag_Mapper_inverse: "read_m (tag_Mapper t) (write_m (tag_Mapper t) v) = v"
  by (simp add: tag_Mapper_def)

lemma readKey_writeKey_HashKey:
  assumes "new_DynamoDBClient dflt ty (HashKey key) config = Inr c"
    and "map_of (Members ty) key = Some m"
    and "read_m m (write_m m k) = k"
  shows "and_then (writeKey c k) (readKey c) = Inr (Object [(key, k)])"
    and "and_then (writeKey c k) (readKey c) \<noteq> Inr k"
proof -
  show "and_then (writeKey c k) (readKey c) = Inr (Object [(key, k)])"
    using assms
    by (auto simp: new_DynamoDBClient_def Let_def and_then_def object_literal_def)
  then show "and_then (writeKey c k) (readKey c) \<noteq> Inr k"
    by (simp add: jsvalue_not_own_property)
qed

lemma readKey_writeKey_SortKey:
  assumes "new_DynamoDBClient dflt ty (SortKey hk sk) config = Inr c"
    and "map_of (Members ty) hk = Some hm" and "map_of (Members ty) sk = Some sm"
    and "hk \<noteq> sk"
    and "read_m hm (write_m hm a) = a" and "read_m sm (write_m sm b) = b"
  shows "and_then (writeKey c (Array [a, b])) (readKey c) = Inr (Object [(hk, a), (sk, b)])"
  using assms
  by (auto simp: new_DynamoDBClient_def Let_def and_then_def object_literal_def)

text \<open>
  Claim C3. \<open>writeKey\<close> takes the key as a bare value (hash key) or as a pair (hash and
  sort key); \<open>readKey\<close> returns an object keyed by the field names. For the client of
  a table with hash key \<open>key\<close>, \<open>readKey(writeKey("a"))\<close> is \<open>{key: "a"}\<close>; for
  the client with hash key \<open>key\<close> and sort key \<open>count\<close>,
  \<open>readKey(writeKey(["a", 1]))\<close> is \<open>{key: "a", count: 1}\<close>. Neither is the key that
  went in, although the field Mappers are two-sided inverses; the lemmas above show the
  same for every key of every client that the constructor builds.
\<close>

theorem readKey_writeKey_returns_object:
  "(case example_client (HashKey ''key'') no_sections of
      None \<Rightarrow> False
    | Some c \<Rightarrow>
        and_then (writeKey c (Str ''a'')) (readKey c) = Inr (Object [(''key'', Str ''a'')])) \<and>
   (case example_client (SortKey ''key'' ''count'') no_sections of
      None \<Rightarrow> False
    | Some c \<Rightarrow>
        and_then (writeKey c (Array [Str ''a'', Value 1])) (readKey c)
          = Inr (Object [(''key'', Str ''a''), (''count'', Value 1)]))"
  by (simp add: example_client_def new_DynamoDBClient_def example_type_def example_props_def
      tag_Mapper_def and_then_def object_literal_def Let_def)

subsection \<open>Batch writes\<close>

lemma batchPut_result:
  assumes "map_throwing (\<lambda>rcd. and_then (property (write_m (mapper c) rcd) ''M'')
               (\<lambda>m. Inr (Object [(''PutRequest'', Object [(''Item'', m)])]))) batch = Inr requests"
    and "batchWriteItem (client c)
           (Object [(''RequestItems'', object_literal [(tableName c, Array requests)])]) st
         = (Inr result, st')"
  shows "batchPut c batch st =
           (Inr (case UnprocessedItems result of
                   None \<Rightarrow> Array []
                 | Some unprocessed \<Rightarrow>
                     (case map_of unprocessed (tableName c) of
                        None \<Rightarrow> Undefined
                      | Some ws \<Rightarrow> Array ws)), st')"
  using assms by (simp add: batchPut_def split: option.splits)

lemma batchPut_partial_failure_example:
  "(case example_client (HashKey ''key'')
           (no_sections\<lparr>UnprocessedItems := Some [(''t'',
              [Object [(''PutRequest'', Object [(''Item'', Object [(''key'', Str ''r2'')])])]])]\<rparr>) of
      None \<Rightarrow> False
    | Some c \<Rightarrow>
        fst (batchPut c [Object [(''key'', Str ''r1'')], Object [(''key'', Str ''r2'')],
                         Object [(''key'', Str ''r3'')]] [])
          = Inr (Array [Object [(''PutRequest'', Object [(''Item'', Object [(''key'', Str ''r2'')])])]]))"
  by (simp add: example_client_def new_DynamoDBClient_def example_type_def example_props_def
      example_store_def no_sections_def tag_Mapper_def and_then_def object_literal_def
      batchPut_def Let_def)

text \<open>
  Claim C4. \<open>batchPut\<close> submits one request with a put request for every record. When
  the store has persisted everything and answers with an \<open>UnprocessedItems\<close> section
  that has no entry for the table (the empty map), \<open>batchPut\<close> returns
  \<open>undefined\<close>, not the empty list. (By the lemmas above it returns \<open>[]\<close> when the
  response has no \<open>UnprocessedItems\<close> section at all, and the table's entry of that
  section when there is one.)
\<close>

theorem batchPut_empty_unprocessed_map:
  "(case example_client (HashKey ''key'') (no_sections\<lparr>UnprocessedItems := Some []\<rparr>) of
      None \<Rightarrow> False
    | Some c \<Rightarrow>
        batchPut c [Object [(''key'', Str ''r1'')]] []
          = (Inr Undefined,
             [Object [(''RequestItems'', Object [(''t'',
                Array [Object [(''PutRequest'', Object [(''Item'', Object [(''key'', Str ''r1'')])])]])])]]))"
  by (simp add: example_client_def new_DynamoDBClient_def example_type_def example_props_def
      example_store_def no_sections_def tag_Mapper_def and_then_def object_literal_def
      batchPut_def Let_def)

subsection \<open>Batch reads and scans\<close>

lemma property_throws_TypeError: "property item k = Inl e \<Longrightarrow> e = TypeError"
  by (cases item) (auto split: option.splits)

lemma map_throwing_error:
  "map_throwing g xs = Inl e \<Longrightarrow> \<exists>x \<in> set xs. g x = Inl e"
  by (induction xs) (auto simp: and_then_def split: sum.splits)

lemma batchGet_generic_error_iff:
  assumes "map_throwing (writeKey c) keys = Inr wkeys"
    and "batchGetItem (client c)
           (Object [(''RequestItems'',
              object_literal [(tableName c, Object [(''Keys'', Array wkeys)])])]) st
         = (Inr result, st')"
  shows "fst (batchGet c keys st) = Inl (Error ''TODO'') \<longleftrightarrow>
           (case Responses result of
              None \<Rightarrow> True
            | Some responses \<Rightarrow> map_of responses (tableName c) = None)"
proof (cases "Responses result")
  case None
  then show ?thesis using assms by (simp add: batchGet_def)
next
  case (Some responses)
  show ?thesis
  proof (cases "map_of responses (tableName c)")
    case None
    then show ?thesis using assms Some by (simp add: batchGet_def)
  next
    case (Some items)
    let ?g = "\<lambda>item. and_then (property item ''Item'')
                (\<lambda>i. Inr (read_m (mapper c) (Object [(''M'', i)])))"
    have "map_throwing ?g items \<noteq> Inl (Error ''TODO'')"
    proof
      assume "map_throwing ?g items = Inl (Error ''TODO'')"
      then obtain x where "?g x = Inl (Error ''TODO'')"
        using map_throwing_error by blast
      then have "property x ''Item'' = Inl (Error ''TODO'')"
        by (auto simp: and_then_def split: sum.splits)
      then show False
        using property_throws_TypeError by blast
    qed
    then have "fst (batchGet c keys st) \<noteq> Inl (Error ''TODO'')"
      using assms \<open>Responses result = Some responses\<close> Some
      by (auto simp: batchGet_def and_then_def split: sum.splits)
    then show ?thesis
      using \<open>Responses result = Some responses\<close> Some by simp
  qed
qed

lemma batchGet_decoded:
  assumes "map_throwing (writeKey c) keys = Inr wkeys"
    and "batchGetItem (client c)
           (Object [(''RequestItems'',
              object_literal [(tableName c, Object [(''Keys'', Array wkeys)])])]) st
         = (Inr result, st')"
    and "Responses result = Some responses"
    and "map_of responses (tableName c) = Some items"
  shows "fst (batchGet c keys st) =
           and_then (map_throwing (\<lambda>item. property item ''Item'') items)
             (\<lambda>ms. Inr (Array (map (\<lambda>m. read_m (mapper c) (Object [(''M'', m)])) ms)))"
proof -
  have "and_then (map_throwing (\<lambda>item. and_then (property item ''Item'')
            (\<lambda>i. Inr (read_m (mapper c) (Object [(''M'', i)])))) xs) (\<lambda>rs. Inr (Array rs))
        = and_then (map_throwing (\<lambda>item. property item ''Item'') xs)
            (\<lambda>ms. Inr (Array (map (\<lambda>m. read_m (mapper c) (Object [(''M'', m)])) ms)))" for xs
    by (induction xs) (auto simp: and_then_def split: sum.splits)
  then show ?thesis
    using assms by (simp add: batchGet_def)
qed

text \<open>
  Claim C8. \<open>batchGet\<close> throws the generic error exactly when the response has no
  \<open>Responses\<close> section or no entry for the table in it (lemma
  \<open>batchGet_generic_error_iff\<close>). Otherwise it decodes, for every entry of the table's
  list, the member \<open>Item\<close> of the entry (lemma \<open>batchGet_decoded\<close>), not the entry:
  for a response whose list holds the item \<open>{key: {S: "a"}}\<close>, it returns
  \<open>[mapper.read({M: undefined})]\<close>, whereas \<open>scan\<close> decodes the same item from
  \<open>{M: item}\<close> and returns the record.
\<close>

theorem batchGet_decodes_Item_member:
  "(case example_client (HashKey ''key'')
           (no_sections\<lparr>Responses := Some [(''t'', [Object [(''key'', Object [(''S'', Str ''a'')])]])],
                         Items := Some [Object [(''key'', Object [(''S'', Str ''a'')])]]\<rparr>) of
      None \<Rightarrow> False
    | Some c \<Rightarrow>
        fst (batchGet c [Str ''a''] []) = Inr (Array [read_m (mapper c) (Object [(''M'', Undefined)])]) \<and>
        fst (batchGet c [Str ''a''] []) = Inr (Array [Undefined]) \<and>
        fst (scan c []) = Inr (Array [Object [(''key'', Object [(''S'', Str ''a'')])]]))"
  by (simp add: example_client_def new_DynamoDBClient_def example_type_def example_props_def
      example_store_def no_sections_def tag_Mapper_def and_then_def object_literal_def
      batchGet_def scan_def Let_def)

text \<open>
  Claim C9. When the store answers a scan with a response that has no \<open>Items\<close>
  section, \<open>scan\<close> returns the empty list and raises nothing; \<open>batchGet\<close>, when the
  store's response has no \<open>Responses\<close> section, throws the generic error.
\<close>

theorem scan_without_Items:
  "(aws_scan (client c) (Object [(''TableName'', Str (tableName c))]) st = (Inr result, st') \<longrightarrow>
    Items result = None \<longrightarrow> scan c st = (Inr (Array []), st')) \<and>
   (map_throwing (writeKey c) keys = Inr wkeys \<longrightarrow>
    batchGetItem (client c)
      (Object [(''RequestItems'',
         object_literal [(tableName c, Object [(''Keys'', Array wkeys)])])]) st2 = (Inr result2, st2') \<longrightarrow>
    Responses result2 = None \<longrightarrow> batchGet c keys st2 = (Inl (Error ''TODO''), st2'))"
  by (simp add: scan_def batchGet_def)

theorem scan_without_Items_witness:
  "(case example_client (HashKey ''key'') no_sections of
      None \<Rightarrow> False
    | Some c \<Rightarrow>
        aws_scan (client c) (Object [(''TableName'', Str (tableName c))]) []
          = (Inr no_sections, [Object [(''TableName'', Str ''t'')]]) \<and>
        Items no_sections = None \<and>
        scan c [] = (Inr (Array []), [Object [(''TableName'', Str ''t'')]]) \<and>
        fst (batchGet c [Str ''a''] []) = Inl (Error ''TODO''))"
proof -
  obtain c where c: "example_client (HashKey ''key'') no_sections = Some c"
    by (simp add: example_client_def new_DynamoDBClient_def example_type_def Let_def)
  let ?wkeys = "[Object [(''key'', Object [(''S'', Str ''a'')])]] :: nat jsvalue list"
  let ?req = "Object [(''RequestItems'',
         object_literal [(tableName c, Object [(''Keys'', Array ?wkeys)])])]"
  have sc: "aws_scan (client c) (Object [(''TableName'', Str (tableName c))]) []
          = (Inr no_sections, [Object [(''TableName'', Str ''t'')]])"
    using c
    by (auto simp: example_client_def new_DynamoDBClient_def example_type_def example_props_def
        example_store_def Let_def)
  have it: "Items no_sections = None" and rs: "Responses no_sections = None"
    by (simp_all add: no_sections_def)
  have wk: "map_throwing (writeKey c) [Str ''a''] = Inr ?wkeys"
    using c
    by (auto simp: example_client_def new_DynamoDBClient_def example_type_def example_props_def
        tag_Mapper_def and_then_def object_literal_def Let_def)
  have bg: "batchGetItem (client c) ?req [] = (Inr no_sections, [?req])"
    using c
    by (auto simp: example_client_def new_DynamoDBClient_def example_type_def example_props_def
        example_store_def Let_def)
  note inst = scan_without_Items [of c "[]" no_sections "[Object [(''TableName'', Str ''t'')]]"
        "[Str ''a'']" ?wkeys "[]" no_sections "[?req]"]
  have s1: "scan c [] = (Inr (Array []), [Object [(''TableName'', Str ''t'')]])"
    using inst sc it by blast
  have s2: "batchGet c [Str ''a''] [] = (Inl (Error ''TODO''), [?req])"
    using inst wk bg rs by blast
  show ?thesis
    using c sc it s1 s2 by simp
qed

subsection \<open>Queries\<close>

lemma new_DynamoDBClient_key_fields:
  "new_DynamoDBClient dflt ty key config = Inr c \<Longrightarrow>
   hashKeyMapper c = None \<and> hashKeyName c = None \<and> sortKeyMapper c = None \<and> sortKeyName c = None"
  by (auto simp: new_DynamoDBClient_def Let_def split: Key.splits option.splits)

lemma query_unassigned_key_mapper:
  "hashKeyMapper c = None \<Longrightarrow> query c condition props st = (Inl TypeError, st)"
  by (simp add: query_def query_input_def Let_def split: prod.splits option.splits)

lemma query_of_constructed_client:
  assumes "new_DynamoDBClient dflt ty key config = Inr c"
  shows "query c condition props st = (Inl TypeError, st)"
  using new_DynamoDBClient_key_fields [OF assms] by (simp add: query_unassigned_key_mapper)

lemma show_nat_digits: "show_nat 0 = ''0''" "show_nat (Suc 0) = ''1''"
  by (simp_all add: show_nat.simps [of 0] show_nat.simps [of "Suc 0"])

lemma show_nat_two: "show_nat (Suc (Suc 0)) = ''2''"
  by (simp add: show_nat.simps [of "Suc (Suc 0)"])

lemma query_with_assigned_key_fields_example:
  "(case example_client (HashKey ''key'') (no_sections\<lparr>Items := Some []\<rparr>) of
      None \<Rightarrow> False
    | Some c \<Rightarrow>
        snd (query (c\<lparr>hashKeyName := Some ''key'', hashKeyMapper := Some (tag_Mapper ''S'')\<rparr>)
               (HashValue (Str ''a''))
               \<lparr>exclusiveStartKey = None,
                filter_p = Some (\<lambda>d. Comparison ''key'' ''<>'' (Str ''b''))\<rparr> [])
          = [Object
              [(''TableName'', Str ''t''),
               (''KeyConditionExpression'', Str ''#n1 = :v1''),
               (''FilterExpression'', Str ''#n0 <> :v0''),
               (''ExpressionAttributeNames'', Object [(''#n1'', Str ''key'')]),
               (''ExpressionAttributeValues'', Object [('':v1'', Object [(''S'', Str ''a'')])]),
               (''ExclusiveStartKey'', Undefined)]])"
  by (simp add: example_client_def new_DynamoDBClient_def example_type_def example_props_def
      example_store_def no_sections_def tag_Mapper_def and_then_def query_def query_input_def
      query_request_def spread_def object_literal_def
      names_object_def dsl_equals_def writeNode_def writeName_def writeValue_def writeText_def
      writeToken_def toExpression_def new_Writer_def new_Namespace_def show_nat_digits Let_def)

text \<open>
  Claim C2. The constructor leaves \<open>hashKeyMapper\<close> and \<open>hashKeyName\<close> unassigned,
  so a query with a filter on the client it builds writes the filter and then throws a
  \<open>TypeError\<close> at \<open>this.hashKeyMapper.write\<close>: the key condition is never written
  and the store receives no request. (Lemma \<open>query_of_constructed_client\<close> shows it for
  every client the constructor builds and every call; lemma
  \<open>query_with_assigned_key_fields_example\<close> shows the two placeholders \<open>#n0\<close> and
  \<open>#n1\<close> that a client with the two fields assigned would produce.)
\<close>

theorem query_throws_before_key_condition:
  "(case example_client (HashKey ''key'') (no_sections\<lparr>Items := Some []\<rparr>) of
      None \<Rightarrow> False
    | Some c \<Rightarrow>
        hashKeyMapper c = None \<and> hashKeyName c = None \<and>
        query c (HashValue (Str ''a''))
          \<lparr>exclusiveStartKey = None,
           filter_p = Some (\<lambda>d. Comparison ''key'' ''<>'' (Str ''b''))\<rparr> []
          = (Inl TypeError, []))"
  by (simp add: example_client_def new_DynamoDBClient_def example_type_def example_props_def
      query_def query_input_def Let_def split: prod.splits)

text \<open>
  The well-typed calls on the client for a hash and a sort key end in the same way.
\<close>

lemma query_of_composite_client_example:
  "(case example_client (SortKey ''key'' ''count'') (no_sections\<lparr>Items := Some []\<rparr>) of
      None \<Rightarrow> False
    | Some c \<Rightarrow>
        query c (HashAndSort (Str ''a'') (Comparison ''count'' ''>'' (Value 1)))
          \<lparr>exclusiveStartKey = None,
           filter_p = Some (\<lambda>d. Comparison ''key'' ''<>'' (Str ''b''))\<rparr> []
          = (Inl TypeError, []) \<and>
        query c (HashValue (Str ''a'')) \<lparr>exclusiveStartKey = None, filter_p = None\<rparr> []
          = (Inl TypeError, []))"
  by (simp add: example_client_def new_DynamoDBClient_def example_type_def example_props_def
      query_def query_input_def Let_def split: prod.splits)

text \<open>
  Claim C10. Every request that \<open>query\<close> submits takes its
  \<open>KeyConditionExpression\<close>, its \<open>ExpressionAttributeNames\<close> and its
  \<open>ExpressionAttributeValues\<close> from the expression that the query writer compiled for
  the key condition, and from nothing else; its \<open>FilterExpression\<close> is the
  expression string of the filter writer when a filter is given and \<open>undefined\<close>
  otherwise, and the filter writer's name and value maps are not part of the request.
  When the request cannot be built, the call ends with the error thrown and the store is
  not called.
\<close>

theorem query_request_attributes:
  "(\<forall>e. query_input c condition props = Inl e \<longrightarrow> query c condition props st = (Inl e, st)) \<and>
   (\<forall>req. query_input c condition props = Inr req \<longrightarrow>
      snd (query c condition props st) = snd (aws_query (client c) req st) \<and>
      (\<exists>hkm hashKeyCond.
         hashKeyMapper c = Some hkm \<and>
         dsl_equals (dsl c) (case hashKeyName c of None \<Rightarrow> ''undefined'' | Some n \<Rightarrow> n)
           (write_m hkm (case condition of HashAndSort v sk \<Rightarrow> v | HashValue v \<Rightarrow> v))
           = Inr hashKeyCond \<and>
         (let filterWritten =
                map_option (\<lambda>flt. Synthesize (flt (dsl c)) (new_Writer, new_Namespace)) (filter_p props);
              namespace = (case filterWritten of None \<Rightarrow> new_Namespace | Some wn \<Rightarrow> snd wn);
              queryExpr = toExpression (fst (writeNode
                (case condition of
                   HashAndSort v sk \<Rightarrow> And hashKeyCond sk
                 | HashValue v \<Rightarrow> hashKeyCond)
                (new_Writer, namespace)))
          in property req ''KeyConditionExpression'' = Inr (Str (Expression queryExpr)) \<and>
             property req ''ExpressionAttributeNames''
               = Inr (names_object (ExpressionAttributeNames queryExpr)) \<and>
             property req ''ExpressionAttributeValues''
               = Inr (Object (ExpressionAttributeValues queryExpr)) \<and>
             property req ''FilterExpression''
               = Inr (case filterWritten of
                        None \<Rightarrow> Undefined
                      | Some wn \<Rightarrow> Str (Expression (toExpression (fst wn)))))))"
proof -
  have err: "query c condition props st = (Inl e, st)" if "query_input c condition props = Inl e" for e
    using that by (simp add: query_def)
  have sub: "snd (query c condition props st) = snd (aws_query (client c) req st)"
    if "query_input c condition props = Inr req" for req
    using that by (simp add: query_def split: prod.splits sum.splits)
  have req: "\<exists>hkm hashKeyCond.
         hashKeyMapper c = Some hkm \<and>
         dsl_equals (dsl c) (case hashKeyName c of None \<Rightarrow> ''undefined'' | Some n \<Rightarrow> n)
           (write_m hkm (case condition of HashAndSort v sk \<Rightarrow> v | HashValue v \<Rightarrow> v))
           = Inr hashKeyCond \<and>
         (let filterWritten =
                map_option (\<lambda>flt. Synthesize (flt (dsl c)) (new_Writer, new_Namespace)) (filter_p props);
              namespace = (case filterWritten of None \<Rightarrow> new_Namespace | Some wn \<Rightarrow> snd wn);
              queryExpr = toExpression (fst (writeNode
                (case condition of
                   HashAndSort v sk \<Rightarrow> And hashKeyCond sk
                 | HashValue v \<Rightarrow> hashKeyCond)
                (new_Writer, namespace)))
          in property req ''KeyConditionExpression'' = Inr (Str (Expression queryExpr)) \<and>
             property req ''ExpressionAttributeNames''
               = Inr (names_object (ExpressionAttributeNames queryExpr)) \<and>
             property req ''ExpressionAttributeValues''
               = Inr (Object (ExpressionAttributeValues queryExpr)) \<and>
             property req ''FilterExpression''
               = Inr (case filterWritten of
                        None \<Rightarrow> Undefined
                      | Some wn \<Rightarrow> Str (Expression (toExpression (fst wn)))))"
    if "query_input c condition props = Inr req" for req
    using that
    by (auto simp: query_input_def query_request_def Let_def
        split: option.splits sum.splits prod.splits)
  show ?thesis
    using err sub req by blast
qed

theorem query_request_attributes_witness:
  "(case example_client_with_key_fields (no_sections\<lparr>Items := Some []\<rparr>) of
      None \<Rightarrow> False
    | Some c \<Rightarrow>
        query_input c (HashAndSort (Str ''a'') (Comparison ''count'' ''>'' (Value 1)))
          \<lparr>exclusiveStartKey = None,
           filter_p = Some (\<lambda>d. Comparison ''key'' ''<>'' (Str ''b''))\<rparr>
          = Inr (Object
              [(''TableName'', Str ''t''),
               (''KeyConditionExpression'', Str ''(#n1 = :v1) AND (#n2 > :v2)''),
               (''FilterExpression'', Str ''#n0 <> :v0''),
               (''ExpressionAttributeNames'', Object [(''#n1'', Str ''key''), (''#n2'', Str ''count'')]),
               (''ExpressionAttributeValues'',
                  Object [('':v1'', Object [(''S'', Str ''a'')]), ('':v2'', Value 1)]),
               (''ExclusiveStartKey'', Undefined)]) \<and>
        snd (query c (HashAndSort (Str ''a'') (Comparison ''count'' ''>'' (Value 1)))
               \<lparr>exclusiveStartKey = None,
                filter_p = Some (\<lambda>d. Comparison ''key'' ''<>'' (Str ''b''))\<rparr> [])
          = [Object
              [(''TableName'', Str ''t''),
               (''KeyConditionExpression'', Str ''(#n1 = :v1) AND (#n2 > :v2)''),
               (''FilterExpression'', Str ''#n0 <> :v0''),
               (''ExpressionAttributeNames'', Object [(''#n1'', Str ''key''), (''#n2'', Str ''count'')]),
               (''ExpressionAttributeValues'',
                  Object [('':v1'', Object [(''S'', Str ''a'')]), ('':v2'', Value 1)]),
               (''ExclusiveStartKey'', Undefined)]])"
proof -
  let ?cond = "HashAndSort (Str ''a'') (Comparison ''count'' ''>'' (Value 1)) :: nat QueryCondition"
  let ?props = "\<lparr>exclusiveStartKey = None,
      filter_p = Some (\<lambda>d. Comparison ''key'' ''<>'' (Str ''b''))\<rparr> :: nat QueryProps"
  let ?req = "Object
              [(''TableName'', Str ''t''),
               (''KeyConditionExpression'', Str ''(#n1 = :v1) AND (#n2 > :v2)''),
               (''FilterExpression'', Str ''#n0 <> :v0''),
               (''ExpressionAttributeNames'', Object [(''#n1'', Str ''key''), (''#n2'', Str ''count'')]),
               (''ExpressionAttributeValues'',
                  Object [('':v1'', Object [(''S'', Str ''a'')]), ('':v2'', Value 1)]),
               (''ExclusiveStartKey'', Undefined)] :: nat jsvalue"
  obtain c where c: "example_client_with_key_fields (no_sections\<lparr>Items := Some []\<rparr>) = Some c"
    by (simp add: example_client_with_key_fields_def example_client_def new_DynamoDBClient_def
        example_type_def Let_def)
  have qi: "query_input c ?cond ?props = Inr ?req"
    using c
    by (auto simp: example_client_with_key_fields_def example_client_def new_DynamoDBClient_def
        example_type_def example_props_def tag_Mapper_def query_input_def query_request_def
        names_object_def dsl_equals_def writeNode_def writeName_def writeValue_def writeText_def
        writeToken_def toExpression_def new_Writer_def new_Namespace_def show_nat_digits
        show_nat_two Let_def)
  have st: "snd (aws_query (client c) ?req []) = [?req]"
    using c
    by (auto simp: example_client_with_key_fields_def example_client_def new_DynamoDBClient_def
        example_type_def example_props_def example_store_def Let_def)
  have "snd (query c ?cond ?props []) = snd (aws_query (client c) ?req [])"
    using query_request_attributes [of c ?cond ?props "[]"] qi by blast
  then show ?thesis
    using c qi st by simp
qed

end
